theory Spec2Isabelle
  imports Main "HOL-Library.Log_Nat"
begin

section \<open>The header of the streamlined event list\<close>

text \<open>
  The development embeds the \<^verbatim>\<open>renderTableHeader\<close> callback of
  \<^verbatim>\<open>static/app/views/issueDetails/streamline/eventList.tsx\<close>: the function
  that derives, from the pagination header of the current page of events, the
  "Showing a-b of n" summary, the two page buttons (target location and disabled flag)
  and the target of the Close button.

  The callback calls two helpers that the file imports, \<^verbatim>\<open>parseLinkHeader\<close>
  (\<^verbatim>\<open>sentry/utils/parseLinkHeader\<close>) and \<^verbatim>\<open>parseCursor\<close>
  (\<^verbatim>\<open>sentry/utils/cursor\<close>). Their bodies are not part of the file, so
  \<open>renderTableHeader\<close> takes both as parameters: it is the callback for helpers that
  return, and what it says holds for all of them. \<open>renderTableHeaderCall\<close> adds what
  happens when a helper throws or returns nothing. Where a property speaks of what the
  helpers make of a header or of a cursor parameter, \<open>parseLinkHeader_spec\<close> and
  \<open>parseCursor_spec\<close> stand for them, written from the specification of the two
  helpers.
\<close>

subsection \<open>Numbers\<close>

text \<open>
  The counts and the offset are JavaScript numbers, that is IEEE-754 doubles. \<open>Num n\<close>
  is the double whose value is the integer \<open>n\<close> (the two zeros are not told apart); a
  count or an offset is never a fraction, so doubles with a fractional part are left out.
  \<open>Num n\<close> is a double only when \<open>n\<close> is representable, that is when
  \<open>roundToDouble n = Num n\<close>; every integer up to \<open>2 ^ 53\<close> in magnitude is.
\<close>

datatype js_number = NaN | PosInfinity | NegInfinity | Num int

text \<open>
  The double nearest to an integer, ties to the even significand (53 bits), overflowing
  to an infinity from \<open>2 ^ 1024\<close> on.
\<close>

definition roundToDouble :: "int \<Rightarrow> js_number" where
  "roundToDouble x =
     (if \<bar>x\<bar> < 2 ^ 53 then Num x
      else
        (let e = nat (bitlen \<bar>x\<bar> - 53);
             q = \<bar>x\<bar> div 2 ^ e;
             r = \<bar>x\<bar> mod 2 ^ e;
             half = 2 ^ (e - 1);
             q' = (if half < r \<or> (r = half \<and> odd q) then q + 1 else q);
             v = q' * 2 ^ e
         in if 2 ^ 1024 \<le> v then (if x < 0 then NegInfinity else PosInfinity)
            else Num (sgn x * v)))"

text \<open>\<^verbatim>\<open>x + y\<close> on numbers: the exact sum, rounded.\<close>

fun jsAdd :: "js_number \<Rightarrow> js_number \<Rightarrow> js_number" where
  "jsAdd NaN y = NaN"
| "jsAdd x NaN = NaN"
| "jsAdd PosInfinity NegInfinity = NaN"
| "jsAdd NegInfinity PosInfinity = NaN"
| "jsAdd PosInfinity y = PosInfinity"
| "jsAdd NegInfinity y = NegInfinity"
| "jsAdd x PosInfinity = PosInfinity"
| "jsAdd x NegInfinity = NegInfinity"
| "jsAdd (Num a) (Num b) = roundToDouble (a + b)"

subsection \<open>Data\<close>

text \<open>
  A value stored under a key of the router's query object. The callback itself writes
  a string or \<^verbatim>\<open>undefined\<close> under \<^verbatim>\<open>cursor\<close>; the other
  constructors stand for what the router may have put under the other keys.
\<close>

datatype query_value = Undefined | Null | Str string | StrList "string list"

text \<open>
  A plain object as a map from its own keys; a key that is bound to
  \<^verbatim>\<open>undefined\<close> is a key of the object (\<open>Some Undefined\<close>), a key that the
  object does not have is \<open>None\<close>.
\<close>

type_synonym query_object = "string \<rightharpoonup> query_value"

text \<open>
  The location of the router. The callback reads \<^verbatim>\<open>location.query?.cursor\<close>, so
  the query object may be missing (\<open>None\<close>). Its remaining fields (search, hash, state
  and so on) are the extension of the record: a value of type
  \<open>'a location_scheme\<close> is a location with any further fields.
\<close>

record location =
  pathname :: string
  query :: "query_object option"

text \<open>
  One entry of the parsed link header. \<^verbatim>\<open>results\<close> is compared with
  \<^verbatim>\<open>=== false\<close>, so it is a boolean that may be missing; \<^verbatim>\<open>cursor\<close> is
  a string that may be missing.
\<close>

record link_descriptor =
  results :: "bool option"
  cursor :: "string option"

text \<open>
  The value of \<^verbatim>\<open>parseLinkHeader(pageLinks)\<close>. Both entries are read with
  \<^verbatim>\<open>?.\<close>, so each may be missing. (The field \<^verbatim>\<open>next\<close> is called
  \<open>next_link\<close> here.)
\<close>

record links =
  previous :: "link_descriptor option"
  next_link :: "link_descriptor option"

text \<open>The value of \<^verbatim>\<open>parseCursor(...)\<close>, read through \<^verbatim>\<open>currentCursor?.offset\<close>.\<close>

record parsed_cursor =
  offset :: js_number

text \<open>
  The argument of the callback. It is destructured into four fields; whatever else the
  object carries is the extension of the record.
\<close>

record table_header_props =
  pageLinks :: "string option"
  pageEventsCount :: js_number
  totalEventsCount :: js_number
  isPending :: bool

text \<open>The arguments of \<^verbatim>\<open>tct('Showing [start]-[end] of [count]', ...)\<close>.\<close>

record range_text =
  tct_start :: js_number
  tct_end :: js_number
  tct_count :: js_number

text \<open>The two props of a page button that the callback computes.\<close>

record 'a link_button =
  button_to :: "'a location_scheme"
  button_disabled :: bool

text \<open>
  What the callback returns, reduced to the computed parts of the element tree: the
  content of the summary item (\<open>None\<close> for \<^verbatim>\<open>null\<close>), the two page buttons and
  the \<^verbatim>\<open>to\<close> prop of the Close button.
\<close>

record 'a event_list_header =
  header_range :: "range_text option"
  previous_button :: "'a link_button"
  next_button :: "'a link_button"
  close_to :: location

subsection \<open>Property access\<close>

text \<open>\<^verbatim>\<open>d?.results\<close> and \<^verbatim>\<open>d?.cursor\<close> for an entry \<open>d\<close> that may be missing.\<close>

definition optResults :: "link_descriptor option \<Rightarrow> bool option" where
  "optResults d = (case d of None \<Rightarrow> None | Some l \<Rightarrow> results l)"

definition optCursor :: "link_descriptor option \<Rightarrow> string option" where
  "optCursor d = (case d of None \<Rightarrow> None | Some l \<Rightarrow> cursor l)"

text \<open>A string or \<^verbatim>\<open>undefined\<close> as the value of a property.\<close>

definition toQueryValue :: "string option \<Rightarrow> query_value" where
  "toQueryValue s = (case s of None \<Rightarrow> Undefined | Some c \<Rightarrow> Str c)"

text \<open>
  \<open>ownProp q k\<close> is the own property \<open>k\<close> of the query object, \<open>None\<close> when the
  object is missing or has no such key.
\<close>

definition ownProp :: "query_object option \<Rightarrow> string \<Rightarrow> query_value option" where
  "ownProp q k = (case q of None \<Rightarrow> None | Some m \<Rightarrow> m k)"

text \<open>\<^verbatim>\<open>q?.k\<close>: reading a key that is not there gives \<^verbatim>\<open>undefined\<close>.\<close>

definition jsGet :: "query_object option \<Rightarrow> string \<Rightarrow> query_value" where
  "jsGet q k = (case ownProp q k of None \<Rightarrow> Undefined | Some v \<Rightarrow> v)"

text \<open>\<^verbatim>\<open>{...q}\<close>: spreading \<^verbatim>\<open>undefined\<close> adds no key.\<close>

definition spreadQuery :: "query_object option \<Rightarrow> query_object" where
  "spreadQuery q = (case q of None \<Rightarrow> Map.empty | Some m \<Rightarrow> m)"

subsection \<open>The callback\<close>

text \<open>
  \<^verbatim>\<open>{...location, query: {...location.query, cursor: c}}\<close>, the \<^verbatim>\<open>to\<close> prop
  of both page buttons.
\<close>

definition withCursor :: "'a location_scheme \<Rightarrow> string option \<Rightarrow> 'a location_scheme" where
  "withCursor loc c =
     loc\<lparr>query := Some ((spreadQuery (query loc))(''cursor'' := Some (toQueryValue c)))\<rparr>"

text \<open>
  The callback for helpers that return: the two imported helpers, the location of
  \<^verbatim>\<open>useLocation()\<close> and the \<^verbatim>\<open>baseUrl\<close> of
  \<^verbatim>\<open>useGroupDetailsRoute()\<close> are arguments. The local constants keep their names.
\<close>

definition renderTableHeader ::
  "(string option \<Rightarrow> links) \<Rightarrow> (query_value \<Rightarrow> parsed_cursor option) \<Rightarrow>
   'a location_scheme \<Rightarrow> string \<Rightarrow> 'b table_header_props_scheme \<Rightarrow> 'a event_list_header" where
  "renderTableHeader parseLinkHeader parseCursor loc baseUrl props =
     (let lnks = parseLinkHeader (pageLinks props);
          previousDisabled = (optResults (previous lnks) = Some False);
          nextDisabled = (optResults (next_link lnks) = Some False);
          currentCursor = parseCursor (jsGet (query loc) ''cursor'');
          start = (case currentCursor of None \<Rightarrow> Num 0 | Some c \<Rightarrow> offset c)
      in \<lparr>header_range =
            (if isPending props then None
             else Some \<lparr>tct_start = start,
                        tct_end = jsAdd start (pageEventsCount props),
                        tct_count = totalEventsCount props\<rparr>),
          previous_button =
            \<lparr>button_to = withCursor loc (optCursor (previous lnks)),
             button_disabled = (isPending props \<or> previousDisabled)\<rparr>,
          next_button =
            \<lparr>button_to = withCursor loc (optCursor (next_link lnks)),
             button_disabled = (isPending props \<or> nextDisabled)\<rparr>,
          close_to = \<lparr>pathname = baseUrl, query = query loc\<rparr>\<rparr>)"

text \<open>
  What a call raises. The call of \<^verbatim>\<open>parseLinkHeader\<close> at line 78 and the call of
  \<^verbatim>\<open>parseCursor\<close> at line 81 are not inside a \<^verbatim>\<open>try\<close>, so what they
  throw leaves the callback. Line 79 reads \<^verbatim>\<open>links.previous\<close> with no guard on
  \<^verbatim>\<open>links\<close>, a \<^verbatim>\<open>TypeError\<close> when the parser returned
  \<^verbatim>\<open>null\<close> or \<^verbatim>\<open>undefined\<close> (\<open>Inr None\<close>); the cursor is read
  with \<^verbatim>\<open>?.\<close>, so a missing cursor raises nothing. The callback has no
  \<^verbatim>\<open>throw\<close> of its own.
\<close>

datatype thrown = TypeError | Raised string

definition renderTableHeaderCall ::
  "(string option \<Rightarrow> thrown + links option) \<Rightarrow>
   (query_value \<Rightarrow> thrown + parsed_cursor option) \<Rightarrow>
   'a location_scheme \<Rightarrow> string \<Rightarrow> 'b table_header_props_scheme \<Rightarrow>
   thrown + 'a event_list_header" where
  "renderTableHeaderCall parseLinkHeader parseCursor loc baseUrl props =
     (case parseLinkHeader (pageLinks props) of
        Inl e \<Rightarrow> Inl e
      | Inr None \<Rightarrow> Inl TypeError
      | Inr (Some lnks) \<Rightarrow>
          (case parseCursor (jsGet (query loc) ''cursor'') of
             Inl e \<Rightarrow> Inl e
           | Inr currentCursor \<Rightarrow>
               Inr (renderTableHeader (\<lambda>h. lnks) (\<lambda>v. currentCursor) loc baseUrl props)))"

subsection \<open>The link header parser of the specification\<close>

text \<open>
  \<^verbatim>\<open>parseLinkHeader\<close> of \<^verbatim>\<open>sentry/utils/parseLinkHeader\<close> is imported by the
  file and is not part of it. This subsection writes it from its specification (4.1): the
  header is a string or is absent, in the encoding
  \<^verbatim>\<open><uri>; rel="previous|next"; results="true|false"; cursor="..."\<close>, one entry
  after the other as in
  \<^verbatim>\<open><u>; rel="previous"; results="false", <u>; rel="next"; results="true"; cursor="10:20:0"\<close>.
\<close>

text \<open>
  Modelled from the spec: the separators of the encoding read by \<^verbatim>\<open>parseLinkHeader\<close>,
  which is missing; entries are separated by commas and the parts of an entry by
  semicolons.
\<close>

fun splitOn :: "char \<Rightarrow> string \<Rightarrow> string list" where
  "splitOn sep [] = [[]]"
| "splitOn sep (c # cs) =
     (if c = sep then [] # splitOn sep cs
      else (case splitOn sep cs of [] \<Rightarrow> [[c]] | p # ps \<Rightarrow> (c # p) # ps))"

text \<open>
  Modelled from the spec: the blanks that the encoding read by the missing
  \<^verbatim>\<open>parseLinkHeader\<close> puts after a separator are not part of a part.
\<close>

definition trim :: "string \<Rightarrow> string" where
  "trim s = rev (dropWhile (\<lambda>c. c = CHR '' '') (rev (dropWhile (\<lambda>c. c = CHR '' '') s)))"

text \<open>
  Modelled from the spec: the value of an attribute, read by the missing
  \<^verbatim>\<open>parseLinkHeader\<close>, stands between double quotes.
\<close>

definition unquote :: "string \<Rightarrow> string option" where
  "unquote s =
     (if 2 \<le> length s \<and> hd s = CHR 0x22 \<and> last s = CHR 0x22 then Some (butlast (tl s))
      else None)"

text \<open>
  Modelled from the spec: the first part of an entry, read by the missing
  \<^verbatim>\<open>parseLinkHeader\<close>, is an address between angle brackets.
\<close>

definition isAddress :: "string \<Rightarrow> bool" where
  "isAddress s = (2 \<le> length s \<and> hd s = CHR ''<'' \<and> last s = CHR ''>'')"

text \<open>
  Modelled from the spec: an attribute, read by the missing \<^verbatim>\<open>parseLinkHeader\<close>,
  has the form \<^verbatim>\<open>key="value"\<close>.
\<close>

definition parseAttribute :: "string \<Rightarrow> (string \<times> string) option" where
  "parseAttribute p =
     (case dropWhile (\<lambda>c. c \<noteq> CHR ''='') p of
        [] \<Rightarrow> None
      | eq # v \<Rightarrow> map_option (Pair (trim (takeWhile (\<lambda>c. c \<noteq> CHR ''='') p))) (unquote (trim v)))"

text \<open>
  Modelled from the spec: an entry as the missing \<^verbatim>\<open>parseLinkHeader\<close> reads it
  from the header: whether its first part is an address, and its attributes. Parts that
  are not attributes are ignored.
\<close>

record header_entry =
  address_ok :: bool
  attributes :: "(string \<times> string) list"

definition parseEntry :: "string \<Rightarrow> header_entry" where
  "parseEntry e =
     (case map trim (splitOn CHR '';'' e) of
        [] \<Rightarrow> \<lparr>address_ok = False, attributes = []\<rparr>
      | a # ps \<Rightarrow> \<lparr>address_ok = isAddress a, attributes = List.map_filter parseAttribute ps\<rparr>)"

text \<open>
  Modelled from the spec: the entries of a header given to the missing
  \<^verbatim>\<open>parseLinkHeader\<close>; an absent header has none.
\<close>

definition headerEntries :: "string option \<Rightarrow> header_entry list" where
  "headerEntries h = (case h of None \<Rightarrow> [] | Some s \<Rightarrow> map parseEntry (splitOn CHR '','' s))"

text \<open>
  Modelled from the spec: the entry that the missing \<^verbatim>\<open>parseLinkHeader\<close> takes
  for a direction is the first entry whose \<^verbatim>\<open>rel\<close> is that direction; entries
  with another \<^verbatim>\<open>rel\<close>, or none, are passed over (relations other than the two
  are ignored). The specification leaves open which entry counts when a direction occurs
  twice.
\<close>

definition entryFor :: "string \<Rightarrow> string option \<Rightarrow> header_entry option" where
  "entryFor d h = find (\<lambda>e. map_of (attributes e) ''rel'' = Some d) (headerEntries h)"

text \<open>
  Modelled from the spec: for the missing \<^verbatim>\<open>parseLinkHeader\<close> an entry is well
  formed when it has an address and says \<^verbatim>\<open>results="true"\<close> or
  \<^verbatim>\<open>results="false"\<close>; the cursor may be left out.
\<close>

definition wellFormed :: "header_entry \<Rightarrow> bool" where
  "wellFormed e =
     (address_ok e \<and>
      (map_of (attributes e) ''results'' = Some ''true'' \<or>
       map_of (attributes e) ''results'' = Some ''false''))"

text \<open>
  Modelled from the spec: the entry of a direction is missing or malformed, the case in
  which the missing \<^verbatim>\<open>parseLinkHeader\<close> fails soft.
\<close>

definition malformedFor :: "string \<Rightarrow> string option \<Rightarrow> bool" where
  "malformedFor d h = (case entryFor d h of None \<Rightarrow> True | Some e \<Rightarrow> \<not> wellFormed e)"

text \<open>
  Modelled from the spec: what the missing \<^verbatim>\<open>parseLinkHeader\<close> yields for a
  missing or malformed entry: no cursor, no results available.
\<close>

definition failSoft :: link_descriptor where
  "failSoft = \<lparr>results = Some False, cursor = None\<rparr>"

text \<open>
  Modelled from the spec: the descriptor that the missing \<^verbatim>\<open>parseLinkHeader\<close>
  yields for a direction. \<^verbatim>\<open>results="false"\<close> stands whether or not a cursor is
  there.
\<close>

definition linkFor :: "string \<Rightarrow> string option \<Rightarrow> link_descriptor" where
  "linkFor d h =
     (case entryFor d h of
        None \<Rightarrow> failSoft
      | Some e \<Rightarrow>
          if wellFormed e
          then \<lparr>results = Some (map_of (attributes e) ''results'' = Some ''true''),
                cursor = map_of (attributes e) ''cursor''\<rparr>
          else failSoft)"

text \<open>
  Modelled from the spec: \<^verbatim>\<open>parseLinkHeader\<close> of
  \<^verbatim>\<open>sentry/utils/parseLinkHeader\<close>, which is missing. The specification (4.1) has
  it return both directions always, a missing or malformed entry for a direction
  yielding no cursor and no results available, and has it never throw.
\<close>

definition parseLinkHeader_spec :: "string option \<Rightarrow> links" where
  "parseLinkHeader_spec h =
     \<lparr>previous = Some (linkFor ''previous'' h), next_link = Some (linkFor ''next'' h)\<rparr>"

subsection \<open>The cursor parser of the specification\<close>

text \<open>
  Modelled from the spec: \<^verbatim>\<open>parseCursor\<close> of \<^verbatim>\<open>sentry/utils/cursor\<close>,
  which the file imports and which is missing. The specification (3, 4.2) has the
  cursor decoded from the cursor parameter of the location and says it may be absent; it
  calls the token opaque and gives no format. So a parameter that is absent, or is not a
  string, gives no cursor, and a string is decoded by \<open>decode\<close>, a parameter, which
  gives no cursor for a token it cannot parse.
\<close>

definition parseCursor_spec ::
  "(string \<Rightarrow> parsed_cursor option) \<Rightarrow> query_value \<Rightarrow> parsed_cursor option" where
  "parseCursor_spec decode v = (case v of Str s \<Rightarrow> decode s | _ \<Rightarrow> None)"

section \<open>Properties\<close>

subsection \<open>Numbers\<close>

lemma roundToDouble_exact: "\<bar>x\<bar> \<le> 2 ^ 53 \<Longrightarrow> roundToDouble x = Num x"
proof (cases "\<bar>x\<bar> < 2 ^ 53")
  case True
  then show ?thesis by (simp add: roundToDouble_def)
next
  case False
  assume "\<bar>x\<bar> \<le> 2 ^ 53"
  with False have "x = 2 ^ 53 \<or> x = - (2 ^ 53)" by auto
  then show ?thesis
  proof
    assume "x = 2 ^ 53"
    then show ?thesis by (simp add: roundToDouble_def compute_bitlen Let_def)
  next
    assume "x = - (2 ^ 53)"
    then show ?thesis by (simp add: roundToDouble_def compute_bitlen Let_def)
  qed
qed

lemma jsAdd_exact: "\<bar>a + b\<bar> \<le> 2 ^ 53 \<Longrightarrow> jsAdd (Num a) (Num b) = Num (a + b)"
  by (simp add: roundToDouble_exact)

subsection \<open>The parts of the result\<close>

lemma header_range_eq:
  "header_range (renderTableHeader plh pc loc baseUrl props) =
     (if isPending props then None
      else Some \<lparr>tct_start = (case pc (jsGet (query loc) ''cursor'') of None \<Rightarrow> Num 0 | Some c \<Rightarrow> offset c),
                 tct_end = jsAdd (case pc (jsGet (query loc) ''cursor'') of None \<Rightarrow> Num 0 | Some c \<Rightarrow> offset c)
                             (pageEventsCount props),
                 tct_count = totalEventsCount props\<rparr>)"
  by (simp add: renderTableHeader_def Let_def)

lemma previous_button_eq:
  "previous_button (renderTableHeader plh pc loc baseUrl props) =
     \<lparr>button_to = withCursor loc (optCursor (previous (plh (pageLinks props)))),
      button_disabled = (isPending props \<or> optResults (previous (plh (pageLinks props))) = Some False)\<rparr>"
  by (simp add: renderTableHeader_def Let_def)

lemma next_button_eq:
  "next_button (renderTableHeader plh pc loc baseUrl props) =
     \<lparr>button_to = withCursor loc (optCursor (next_link (plh (pageLinks props)))),
      button_disabled = (isPending props \<or> optResults (next_link (plh (pageLinks props))) = Some False)\<rparr>"
  by (simp add: renderTableHeader_def Let_def)

lemma close_to_eq:
  "close_to (renderTableHeader plh pc loc baseUrl props) = \<lparr>pathname = baseUrl, query = query loc\<rparr>"
  by (simp add: renderTableHeader_def Let_def)

subsection \<open>The target of a page button\<close>

lemma withCursor_pathname: "pathname (withCursor loc c) = pathname loc"
  by (simp add: withCursor_def)

lemma withCursor_more: "location.more (withCursor loc c) = location.more loc"
  by (simp add: withCursor_def)

lemma withCursor_ownProp:
  "ownProp (query (withCursor loc c)) k =
     (if k = ''cursor'' then Some (toQueryValue c) else ownProp (query loc) k)"
  by (simp add: withCursor_def ownProp_def spreadQuery_def split: option.splits)

lemma withCursor_idem: "withCursor (withCursor loc c) c = withCursor loc c"
  by (simp add: withCursor_def spreadQuery_def)

lemma optResults_cursor_update:
  "optResults (map_option (cursor_update f) d) = optResults d"
  by (cases d) (simp_all add: optResults_def)

subsection \<open>What the call raises\<close>

text \<open>
  The call returns when both helpers return and the parser returned an object; what a
  helper throws is what the call throws; a parser that returns nothing makes line 79
  throw.
\<close>

lemma call_returns:
  "plh (pageLinks props) = Inr (Some lnks) \<Longrightarrow> pc (jsGet (query loc) ''cursor'') = Inr cur \<Longrightarrow>
   renderTableHeaderCall plh pc loc baseUrl props =
     Inr (renderTableHeader (\<lambda>h. lnks) (\<lambda>v. cur) loc baseUrl props)"
  by (simp add: renderTableHeaderCall_def)

lemma call_parser_throws:
  "plh (pageLinks props) = Inl e \<Longrightarrow> renderTableHeaderCall plh pc loc baseUrl props = Inl e"
  by (simp add: renderTableHeaderCall_def)

lemma call_links_nullish:
  "plh (pageLinks props) = Inr None \<Longrightarrow> renderTableHeaderCall plh pc loc baseUrl props = Inl TypeError"
  by (simp add: renderTableHeaderCall_def)

lemma call_cursor_throws:
  "plh (pageLinks props) = Inr (Some lnks) \<Longrightarrow> pc (jsGet (query loc) ''cursor'') = Inl e \<Longrightarrow>
   renderTableHeaderCall plh pc loc baseUrl props = Inl e"
  by (simp add: renderTableHeaderCall_def)


subsection \<open>The parsers of the specification\<close>

lemma entryFor_None_iff:
  "entryFor d h = None \<longleftrightarrow> (\<forall>e \<in> set (headerEntries h). map_of (attributes e) ''rel'' \<noteq> Some d)"
  by (auto simp add: entryFor_def find_None_iff)

lemma linkFor_malformed: "malformedFor d h \<Longrightarrow> linkFor d h = failSoft"
  by (simp add: malformedFor_def linkFor_def split: option.splits)

lemma malformedFor_missing: "entryFor d h = None \<Longrightarrow> malformedFor d h"
  by (simp add: malformedFor_def)

lemma spec_previous_disabled:
  "malformedFor ''previous'' (pageLinks props) \<Longrightarrow>
   button_disabled (previous_button (renderTableHeader parseLinkHeader_spec pc loc baseUrl props))"
  by (simp add: previous_button_eq parseLinkHeader_spec_def optResults_def linkFor_malformed failSoft_def)

lemma spec_next_disabled:
  "malformedFor ''next'' (pageLinks props) \<Longrightarrow>
   button_disabled (next_button (renderTableHeader parseLinkHeader_spec pc loc baseUrl props))"
  by (simp add: next_button_eq parseLinkHeader_spec_def optResults_def linkFor_malformed failSoft_def)

lemma parseCursor_spec_not_string: "(\<forall>s. v \<noteq> Str s) \<Longrightarrow> parseCursor_spec decode v = None"
  by (cases v) (simp_all add: parseCursor_spec_def)

lemma parseCursor_spec_string: "parseCursor_spec decode (Str s) = decode s"
  by (simp add: parseCursor_spec_def)

subsection \<open>A direction without an entry in the header\<close>

text \<open>
  Claim C1: for every pagination header that has no entry for a direction (no entry whose
  \<^verbatim>\<open>rel\<close> is that direction), the button of that direction is disabled, whatever
  \<^verbatim>\<open>isPending\<close> is. The parser is the one of the specification, which gives such a
  direction an entry without results; the callback's
  \<^verbatim>\<open>links.previous?.results === false\<close> then disables the button.
\<close>

theorem missing_rel_disabled:
  "((\<forall>e \<in> set (headerEntries (pageLinks props)). map_of (attributes e) ''rel'' \<noteq> Some ''previous'') \<longrightarrow>
      button_disabled (previous_button
        (renderTableHeader parseLinkHeader_spec pc loc baseUrl props))) \<and>
   ((\<forall>e \<in> set (headerEntries (pageLinks props)). map_of (attributes e) ''rel'' \<noteq> Some ''next'') \<longrightarrow>
      button_disabled (next_button
        (renderTableHeader parseLinkHeader_spec pc loc baseUrl props)))"
proof (intro conjI impI)
  assume "\<forall>e \<in> set (headerEntries (pageLinks props)). map_of (attributes e) ''rel'' \<noteq> Some ''previous''"
  then have "entryFor ''previous'' (pageLinks props) = None"
    by (simp add: entryFor_None_iff)
  then show "button_disabled (previous_button
      (renderTableHeader parseLinkHeader_spec pc loc baseUrl props))"
    by (intro spec_previous_disabled malformedFor_missing)
next
  assume "\<forall>e \<in> set (headerEntries (pageLinks props)). map_of (attributes e) ''rel'' \<noteq> Some ''next''"
  then have "entryFor ''next'' (pageLinks props) = None"
    by (simp add: entryFor_None_iff)
  then show "button_disabled (next_button
      (renderTableHeader parseLinkHeader_spec pc loc baseUrl props))"
    by (intro spec_next_disabled malformedFor_missing)
qed

theorem missing_rel_disabled_witness:
  "map (\<lambda>e. map_of (attributes e) ''rel'')
     (headerEntries (Some ''<u>; rel=\"next\"; results=\"true\"; cursor=\"0:20:0\"'')) = [Some ''next''] \<and>
   button_disabled (previous_button (renderTableHeader parseLinkHeader_spec (\<lambda>v. None)
      \<lparr>pathname = ''/issues/1/events/'', query = None\<rparr> ''/issues/1/''
      \<lparr>pageLinks = Some ''<u>; rel=\"next\"; results=\"true\"; cursor=\"0:20:0\"'',
       pageEventsCount = Num 20, totalEventsCount = Num 57, isPending = False\<rparr>)) \<and>
   map (\<lambda>e. map_of (attributes e) ''rel'')
     (headerEntries (Some ''<u>; rel=\"previous\"; results=\"true\"; cursor=\"0:0:1\"'')) = [Some ''previous''] \<and>
   button_disabled (next_button (renderTableHeader parseLinkHeader_spec (\<lambda>v. None)
      \<lparr>pathname = ''/issues/1/events/'', query = None\<rparr> ''/issues/1/''
      \<lparr>pageLinks = Some ''<u>; rel=\"previous\"; results=\"true\"; cursor=\"0:0:1\"'',
       pageEventsCount = Num 17, totalEventsCount = Num 57, isPending = False\<rparr>))"
  using
    missing_rel_disabled
      [where props = "\<lparr>pageLinks = Some ''<u>; rel=\"next\"; results=\"true\"; cursor=\"0:20:0\"'',
                       pageEventsCount = Num 20, totalEventsCount = Num 57, isPending = False\<rparr>"
         and pc = "\<lambda>v. None" and loc = "\<lparr>pathname = ''/issues/1/events/'', query = None\<rparr>"
         and baseUrl = "''/issues/1/''"]
    missing_rel_disabled
      [where props = "\<lparr>pageLinks = Some ''<u>; rel=\"previous\"; results=\"true\"; cursor=\"0:0:1\"'',
                       pageEventsCount = Num 17, totalEventsCount = Num 57, isPending = False\<rparr>"
         and pc = "\<lambda>v. None" and loc = "\<lparr>pathname = ''/issues/1/events/'', query = None\<rparr>"
         and baseUrl = "''/issues/1/''"]
  by (simp add: headerEntries_def parseEntry_def trim_def isAddress_def parseAttribute_def
        unquote_def List.map_filter_def)

subsection \<open>The range summary\<close>

text \<open>
  Claim C2, as stated: when nothing is loading the summary shows the offset, the offset
  plus the number of events of the page, and the total. The callback computes
  \<^verbatim>\<open>start + pageEventsCount\<close> on JavaScript numbers, and the sum of two doubles is
  rounded: at offset \<open>2 ^ 53\<close> with one event on the page the end is \<open>2 ^ 53\<close>
  again, not \<open>2 ^ 53 + 1\<close>.
\<close>

theorem range_end_rounding_counterexample:
  "header_range (renderTableHeader parseLinkHeader_spec
      (parseCursor_spec (\<lambda>s. if s = ''0:9007199254740992:0''
                              then Some \<lparr>offset = Num 9007199254740992\<rparr> else None))
      \<lparr>pathname = ''/issues/1/events/'',
       query = Some [''cursor'' \<mapsto> Str ''0:9007199254740992:0'']\<rparr>
      ''/issues/1/''
      \<lparr>pageLinks = None, pageEventsCount = Num 1, totalEventsCount = Num 9007199254740992,
       isPending = False\<rparr>) =
     Some \<lparr>tct_start = Num 9007199254740992, tct_end = Num 9007199254740992,
           tct_count = Num 9007199254740992\<rparr>"
  by (simp add: renderTableHeader_def parseCursor_spec_def jsGet_def ownProp_def
        roundToDouble_def compute_bitlen Let_def)

text \<open>
  Claim C2, amended: while \<^verbatim>\<open>isPending\<close> is true the summary item renders nothing.
  Otherwise it shows \<open>start\<close>, the JavaScript sum of \<open>start\<close> and
  \<^verbatim>\<open>pageEventsCount\<close>, and \<^verbatim>\<open>totalEventsCount\<close>, where \<open>start\<close> is the
  offset of the cursor decoded from the cursor parameter of the location, and 0 when the
  parameter is absent, is not a string or cannot be decoded. The sum is the sum of the
  integers whenever that is at most \<open>2 ^ 53\<close> in magnitude.
\<close>

theorem range_summary:
  "(isPending props \<longrightarrow>
      header_range (renderTableHeader plh (parseCursor_spec decode) loc baseUrl props) = None) \<and>
   (\<not> isPending props \<longrightarrow> (\<forall>s. jsGet (query loc) ''cursor'' \<noteq> Str s) \<longrightarrow>
      header_range (renderTableHeader plh (parseCursor_spec decode) loc baseUrl props) =
        Some \<lparr>tct_start = Num 0, tct_end = jsAdd (Num 0) (pageEventsCount props),
              tct_count = totalEventsCount props\<rparr>) \<and>
   (\<not> isPending props \<longrightarrow> jsGet (query loc) ''cursor'' = Str s \<longrightarrow> decode s = None \<longrightarrow>
      header_range (renderTableHeader plh (parseCursor_spec decode) loc baseUrl props) =
        Some \<lparr>tct_start = Num 0, tct_end = jsAdd (Num 0) (pageEventsCount props),
              tct_count = totalEventsCount props\<rparr>) \<and>
   (\<not> isPending props \<longrightarrow> jsGet (query loc) ''cursor'' = Str s \<longrightarrow> decode s = Some c \<longrightarrow>
      header_range (renderTableHeader plh (parseCursor_spec decode) loc baseUrl props) =
        Some \<lparr>tct_start = offset c, tct_end = jsAdd (offset c) (pageEventsCount props),
              tct_count = totalEventsCount props\<rparr>) \<and>
   (\<bar>a + b\<bar> \<le> 2 ^ 53 \<longrightarrow> jsAdd (Num a) (Num b) = Num (a + b))"
proof (intro conjI impI)
  let ?view = "renderTableHeader plh (parseCursor_spec decode) loc baseUrl props"
  show "header_range ?view = None" if "isPending props"
    using that by (simp add: header_range_eq)
  show "header_range ?view =
      Some \<lparr>tct_start = Num 0, tct_end = jsAdd (Num 0) (pageEventsCount props),
            tct_count = totalEventsCount props\<rparr>"
    if "\<not> isPending props" and "\<forall>s. jsGet (query loc) ''cursor'' \<noteq> Str s"
    using that by (simp add: header_range_eq parseCursor_spec_not_string)
  show "header_range ?view =
      Some \<lparr>tct_start = Num 0, tct_end = jsAdd (Num 0) (pageEventsCount props),
            tct_count = totalEventsCount props\<rparr>"
    if "\<not> isPending props" and "jsGet (query loc) ''cursor'' = Str s" and "decode s = None"
    using that by (simp add: header_range_eq parseCursor_spec_string)
  show "header_range ?view =
      Some \<lparr>tct_start = offset c, tct_end = jsAdd (offset c) (pageEventsCount props),
            tct_count = totalEventsCount props\<rparr>"
    if "\<not> isPending props" and "jsGet (query loc) ''cursor'' = Str s" and "decode s = Some c"
    using that by (simp add: header_range_eq parseCursor_spec_string)
  show "jsAdd (Num a) (Num b) = Num (a + b)" if "\<bar>a + b\<bar> \<le> 2 ^ 53"
    using that by (rule jsAdd_exact)
qed

theorem range_summary_witness:
  "header_range (renderTableHeader parseLinkHeader_spec
      (parseCursor_spec (\<lambda>s. if s = ''0:40:0'' then Some \<lparr>offset = Num 40\<rparr> else None))
      \<lparr>pathname = ''/issues/1/events/'', query = Some [''cursor'' \<mapsto> Str ''0:40:0'']\<rparr>
      ''/issues/1/''
      \<lparr>pageLinks = None, pageEventsCount = Num 20, totalEventsCount = Num 57, isPending = True\<rparr>) =
     None \<and>
   header_range (renderTableHeader parseLinkHeader_spec
      (parseCursor_spec (\<lambda>s. if s = ''0:40:0'' then Some \<lparr>offset = Num 40\<rparr> else None))
      \<lparr>pathname = ''/issues/1/events/'', query = Some [''query'' \<mapsto> Str ''is:unresolved'']\<rparr>
      ''/issues/1/''
      \<lparr>pageLinks = None, pageEventsCount = Num 20, totalEventsCount = Num 57, isPending = False\<rparr>) =
     Some \<lparr>tct_start = Num 0, tct_end = Num 20, tct_count = Num 57\<rparr> \<and>
   header_range (renderTableHeader parseLinkHeader_spec
      (parseCursor_spec (\<lambda>s. if s = ''0:40:0'' then Some \<lparr>offset = Num 40\<rparr> else None))
      \<lparr>pathname = ''/issues/1/events/'', query = Some [''cursor'' \<mapsto> Str ''garbage'']\<rparr>
      ''/issues/1/''
      \<lparr>pageLinks = None, pageEventsCount = Num 20, totalEventsCount = Num 57, isPending = False\<rparr>) =
     Some \<lparr>tct_start = Num 0, tct_end = Num 20, tct_count = Num 57\<rparr> \<and>
   header_range (renderTableHeader parseLinkHeader_spec
      (parseCursor_spec (\<lambda>s. if s = ''0:40:0'' then Some \<lparr>offset = Num 40\<rparr> else None))
      \<lparr>pathname = ''/issues/1/events/'', query = Some [''cursor'' \<mapsto> Str ''0:40:0'']\<rparr>
      ''/issues/1/''
      \<lparr>pageLinks = None, pageEventsCount = Num 17, totalEventsCount = Num 57, isPending = False\<rparr>) =
     Some \<lparr>tct_start = Num 40, tct_end = Num 57, tct_count = Num 57\<rparr>"
  using
    range_summary
      [where props = "\<lparr>pageLinks = None, pageEventsCount = Num 20, totalEventsCount = Num 57, isPending = True\<rparr>"
         and plh = parseLinkHeader_spec
         and decode = "\<lambda>s. if s = ''0:40:0'' then Some \<lparr>offset = Num 40\<rparr> else None"
         and loc = "\<lparr>pathname = ''/issues/1/events/'', query = Some [''cursor'' \<mapsto> Str ''0:40:0'']\<rparr>"
         and baseUrl = "''/issues/1/''" and s = "''0:40:0''" and c = "\<lparr>offset = Num 40\<rparr>"
         and a = 40 and b = 20]
    range_summary
      [where props = "\<lparr>pageLinks = None, pageEventsCount = Num 20, totalEventsCount = Num 57, isPending = False\<rparr>"
         and plh = parseLinkHeader_spec
         and decode = "\<lambda>s. if s = ''0:40:0'' then Some \<lparr>offset = Num 40\<rparr> else None"
         and loc = "\<lparr>pathname = ''/issues/1/events/'', query = Some [''query'' \<mapsto> Str ''is:unresolved'']\<rparr>"
         and baseUrl = "''/issues/1/''" and s = "''0:40:0''" and c = "\<lparr>offset = Num 40\<rparr>"
         and a = 0 and b = 20]
    range_summary
      [where props = "\<lparr>pageLinks = None, pageEventsCount = Num 20, totalEventsCount = Num 57, isPending = False\<rparr>"
         and plh = parseLinkHeader_spec
         and decode = "\<lambda>s. if s = ''0:40:0'' then Some \<lparr>offset = Num 40\<rparr> else None"
         and loc = "\<lparr>pathname = ''/issues/1/events/'', query = Some [''cursor'' \<mapsto> Str ''garbage'']\<rparr>"
         and baseUrl = "''/issues/1/''" and s = "''garbage''" and c = "\<lparr>offset = Num 40\<rparr>"
         and a = 0 and b = 20]
    range_summary
      [where props = "\<lparr>pageLinks = None, pageEventsCount = Num 17, totalEventsCount = Num 57, isPending = False\<rparr>"
         and plh = parseLinkHeader_spec
         and decode = "\<lambda>s. if s = ''0:40:0'' then Some \<lparr>offset = Num 40\<rparr> else None"
         and loc = "\<lparr>pathname = ''/issues/1/events/'', query = Some [''cursor'' \<mapsto> Str ''0:40:0'']\<rparr>"
         and baseUrl = "''/issues/1/''" and s = "''0:40:0''" and c = "\<lparr>offset = Num 40\<rparr>"
         and a = 40 and b = 17]
  by (simp add: jsGet_def ownProp_def)

subsection \<open>The disabled flag of a page button\<close>

text \<open>
  Claim C3: both page buttons are disabled while \<^verbatim>\<open>isPending\<close> is true. When it
  is false, a button is disabled exactly when the \<^verbatim>\<open>results\<close> flag of its
  direction's entry is \<^verbatim>\<open>false\<close>, and enabled otherwise (also when the entry or
  the flag is missing). The cursor token plays no part: putting any cursor, or none, into
  the entries leaves both flags as they are.
\<close>

theorem direction_disabled_iff:
  "(isPending props \<longrightarrow>
      button_disabled (previous_button (renderTableHeader plh pc loc baseUrl props)) \<and>
      button_disabled (next_button (renderTableHeader plh pc loc baseUrl props))) \<and>
   (\<not> isPending props \<longrightarrow>
      button_disabled (previous_button (renderTableHeader plh pc loc baseUrl props)) =
        (optResults (previous (plh (pageLinks props))) = Some False) \<and>
      button_disabled (next_button (renderTableHeader plh pc loc baseUrl props)) =
        (optResults (next_link (plh (pageLinks props))) = Some False)) \<and>
   button_disabled (previous_button (renderTableHeader
       (\<lambda>h. (plh h)\<lparr>previous := map_option (cursor_update (\<lambda>old. c1)) (previous (plh h)),
                     next_link := map_option (cursor_update (\<lambda>old. c2)) (next_link (plh h))\<rparr>)
       pc loc baseUrl props)) =
     button_disabled (previous_button (renderTableHeader plh pc loc baseUrl props)) \<and>
   button_disabled (next_button (renderTableHeader
       (\<lambda>h. (plh h)\<lparr>previous := map_option (cursor_update (\<lambda>old. c1)) (previous (plh h)),
                     next_link := map_option (cursor_update (\<lambda>old. c2)) (next_link (plh h))\<rparr>)
       pc loc baseUrl props)) =
     button_disabled (next_button (renderTableHeader plh pc loc baseUrl props))"
  by (simp add: previous_button_eq next_button_eq optResults_cursor_update)

theorem direction_disabled_iff_witness:
  "button_disabled (previous_button (renderTableHeader
      (\<lambda>h. \<lparr>previous = Some \<lparr>results = Some True, cursor = Some ''0:0:1''\<rparr>,
             next_link = Some \<lparr>results = Some True, cursor = None\<rparr>\<rparr>)
      (\<lambda>v. None) \<lparr>pathname = ''/issues/1/events/'', query = None\<rparr> ''/issues/1/''
      \<lparr>pageLinks = Some ''h'', pageEventsCount = Num 20, totalEventsCount = Num 57, isPending = True\<rparr>)) \<and>
   button_disabled (next_button (renderTableHeader
      (\<lambda>h. \<lparr>previous = Some \<lparr>results = Some True, cursor = Some ''0:0:1''\<rparr>,
             next_link = Some \<lparr>results = Some True, cursor = None\<rparr>\<rparr>)
      (\<lambda>v. None) \<lparr>pathname = ''/issues/1/events/'', query = None\<rparr> ''/issues/1/''
      \<lparr>pageLinks = Some ''h'', pageEventsCount = Num 20, totalEventsCount = Num 57, isPending = True\<rparr>)) \<and>
   button_disabled (previous_button (renderTableHeader
      (\<lambda>h. \<lparr>previous = Some \<lparr>results = Some False, cursor = Some ''0:0:1''\<rparr>,
             next_link = Some \<lparr>results = Some True, cursor = None\<rparr>\<rparr>)
      (\<lambda>v. None) \<lparr>pathname = ''/issues/1/events/'', query = None\<rparr> ''/issues/1/''
      \<lparr>pageLinks = Some ''h'', pageEventsCount = Num 20, totalEventsCount = Num 57, isPending = False\<rparr>)) \<and>
   \<not> button_disabled (next_button (renderTableHeader
      (\<lambda>h. \<lparr>previous = Some \<lparr>results = Some False, cursor = Some ''0:0:1''\<rparr>,
             next_link = Some \<lparr>results = Some True, cursor = None\<rparr>\<rparr>)
      (\<lambda>v. None) \<lparr>pathname = ''/issues/1/events/'', query = None\<rparr> ''/issues/1/''
      \<lparr>pageLinks = Some ''h'', pageEventsCount = Num 20, totalEventsCount = Num 57, isPending = False\<rparr>))"
  using
    direction_disabled_iff
      [where props = "\<lparr>pageLinks = Some ''h'', pageEventsCount = Num 20, totalEventsCount = Num 57, isPending = True\<rparr>"
         and plh = "\<lambda>h. \<lparr>previous = Some \<lparr>results = Some True, cursor = Some ''0:0:1''\<rparr>,
                           next_link = Some \<lparr>results = Some True, cursor = None\<rparr>\<rparr>"
         and pc = "\<lambda>v. None"
         and loc = "\<lparr>pathname = ''/issues/1/events/'', query = None\<rparr>"
         and baseUrl = "''/issues/1/''" and ?c1.0 = None and ?c2.0 = None]
    direction_disabled_iff
      [where props = "\<lparr>pageLinks = Some ''h'', pageEventsCount = Num 20, totalEventsCount = Num 57, isPending = False\<rparr>"
         and plh = "\<lambda>h. \<lparr>previous = Some \<lparr>results = Some False, cursor = Some ''0:0:1''\<rparr>,
                           next_link = Some \<lparr>results = Some True, cursor = None\<rparr>\<rparr>"
         and pc = "\<lambda>v. None"
         and loc = "\<lparr>pathname = ''/issues/1/events/'', query = None\<rparr>"
         and baseUrl = "''/issues/1/''" and ?c1.0 = None and ?c2.0 = None]
  by (simp add: optResults_def)

subsection \<open>What a page button keeps of the location\<close>

text \<open>
  Claim C4: the target of either page button is the current location with the
  \<^verbatim>\<open>cursor\<close> key of its query bound to the cursor of that direction's entry. The
  path, the further fields of the location and every other query key are those of the
  current location.
\<close>

theorem page_target_frame:
  "pathname (button_to (previous_button (renderTableHeader plh pc loc baseUrl props))) = pathname loc \<and>
   pathname (button_to (next_button (renderTableHeader plh pc loc baseUrl props))) = pathname loc \<and>
   location.more (button_to (previous_button (renderTableHeader plh pc loc baseUrl props))) = location.more loc \<and>
   location.more (button_to (next_button (renderTableHeader plh pc loc baseUrl props))) = location.more loc \<and>
   (k \<noteq> ''cursor'' \<longrightarrow>
      ownProp (query (button_to (previous_button (renderTableHeader plh pc loc baseUrl props)))) k =
        ownProp (query loc) k \<and>
      ownProp (query (button_to (next_button (renderTableHeader plh pc loc baseUrl props)))) k =
        ownProp (query loc) k) \<and>
   ownProp (query (button_to (previous_button (renderTableHeader plh pc loc baseUrl props)))) ''cursor'' =
     Some (toQueryValue (optCursor (previous (plh (pageLinks props))))) \<and>
   ownProp (query (button_to (next_button (renderTableHeader plh pc loc baseUrl props)))) ''cursor'' =
     Some (toQueryValue (optCursor (next_link (plh (pageLinks props)))))"
  by (simp add: previous_button_eq next_button_eq withCursor_pathname withCursor_more
        withCursor_ownProp)

theorem page_target_frame_witness:
  "''query'' \<noteq> ''cursor'' \<and>
   pathname (button_to (next_button (renderTableHeader
      (\<lambda>h. \<lparr>previous = None, next_link = Some \<lparr>results = Some True, cursor = Some ''0:20:0''\<rparr>\<rparr>)
      (\<lambda>v. None)
      \<lparr>pathname = ''/issues/1/events/'',
       query = Some [''query'' \<mapsto> Str ''is:unresolved'', ''cursor'' \<mapsto> Str ''0:0:0'']\<rparr>
      ''/issues/1/''
      \<lparr>pageLinks = Some ''h'', pageEventsCount = Num 20, totalEventsCount = Num 57, isPending = False\<rparr>))) =
     ''/issues/1/events/'' \<and>
   ownProp (query (button_to (next_button (renderTableHeader
      (\<lambda>h. \<lparr>previous = None, next_link = Some \<lparr>results = Some True, cursor = Some ''0:20:0''\<rparr>\<rparr>)
      (\<lambda>v. None)
      \<lparr>pathname = ''/issues/1/events/'',
       query = Some [''query'' \<mapsto> Str ''is:unresolved'', ''cursor'' \<mapsto> Str ''0:0:0'']\<rparr>
      ''/issues/1/''
      \<lparr>pageLinks = Some ''h'', pageEventsCount = Num 20, totalEventsCount = Num 57, isPending = False\<rparr>))))
      ''query'' = Some (Str ''is:unresolved'') \<and>
   ownProp (query (button_to (next_button (renderTableHeader
      (\<lambda>h. \<lparr>previous = None, next_link = Some \<lparr>results = Some True, cursor = Some ''0:20:0''\<rparr>\<rparr>)
      (\<lambda>v. None)
      \<lparr>pathname = ''/issues/1/events/'',
       query = Some [''query'' \<mapsto> Str ''is:unresolved'', ''cursor'' \<mapsto> Str ''0:0:0'']\<rparr>
      ''/issues/1/''
      \<lparr>pageLinks = Some ''h'', pageEventsCount = Num 20, totalEventsCount = Num 57, isPending = False\<rparr>))))
      ''cursor'' = Some (Str ''0:20:0'')"
  using
    page_target_frame
      [where props = "\<lparr>pageLinks = Some ''h'', pageEventsCount = Num 20, totalEventsCount = Num 57, isPending = False\<rparr>"
         and plh = "\<lambda>h. \<lparr>previous = None, next_link = Some \<lparr>results = Some True, cursor = Some ''0:20:0''\<rparr>\<rparr>"
         and pc = "\<lambda>v. None"
         and loc = "\<lparr>pathname = ''/issues/1/events/'',
                     query = Some [''query'' \<mapsto> Str ''is:unresolved'', ''cursor'' \<mapsto> Str ''0:0:0'']\<rparr>"
         and baseUrl = "''/issues/1/''" and k = "''query''"]
  by (simp add: ownProp_def optCursor_def toQueryValue_def)

subsection \<open>An entry without a cursor token\<close>

text \<open>
  Claim C5, as stated: when the entry of a direction has no cursor token, the target of
  that direction's button has no \<^verbatim>\<open>cursor\<close> key in its query. The callback builds
  the query as \<^verbatim>\<open>{...location.query, cursor: links.next?.cursor}\<close>, an object
  literal that always has the key. For a next entry without a cursor the key is there.
\<close>

theorem missing_cursor_key_counterexample:
  "ownProp (query (button_to (next_button (renderTableHeader
      (\<lambda>h. \<lparr>previous = None, next_link = Some \<lparr>results = Some True, cursor = None\<rparr>\<rparr>)
      (\<lambda>v. None)
      \<lparr>pathname = ''/issues/1/events/'',
       query = Some [''query'' \<mapsto> Str ''is:unresolved'', ''cursor'' \<mapsto> Str ''0:20:0'']\<rparr>
      ''/issues/1/''
      \<lparr>pageLinks = Some ''h'', pageEventsCount = Num 20, totalEventsCount = Num 57, isPending = False\<rparr>))))
      ''cursor'' \<noteq> None"
  by (simp add: renderTableHeader_def withCursor_def ownProp_def)

text \<open>
  Claim C5, amended: when the entry of a direction is missing or has no cursor token,
  the query of that direction's target has the \<^verbatim>\<open>cursor\<close> key, bound to
  \<^verbatim>\<open>undefined\<close>; reading the key gives \<^verbatim>\<open>undefined\<close>, as reading a
  missing key would, and no cursor string of the current location is carried over.
\<close>

theorem missing_cursor_key_undefined:
  "(optCursor (previous (plh (pageLinks props))) = None \<longrightarrow>
      ownProp (query (button_to (previous_button (renderTableHeader plh pc loc baseUrl props)))) ''cursor'' =
        Some Undefined \<and>
      jsGet (query (button_to (previous_button (renderTableHeader plh pc loc baseUrl props)))) ''cursor'' =
        Undefined) \<and>
   (optCursor (next_link (plh (pageLinks props))) = None \<longrightarrow>
      ownProp (query (button_to (next_button (renderTableHeader plh pc loc baseUrl props)))) ''cursor'' =
        Some Undefined \<and>
      jsGet (query (button_to (next_button (renderTableHeader plh pc loc baseUrl props)))) ''cursor'' =
        Undefined)"
  by (simp add: previous_button_eq next_button_eq withCursor_ownProp toQueryValue_def jsGet_def)

theorem missing_cursor_key_undefined_witness:
  "optCursor (previous ((\<lambda>h. \<lparr>previous = None,
        next_link = Some \<lparr>results = Some True, cursor = None\<rparr>\<rparr>) (Some ''h''))) = None \<and>
   optCursor (next_link ((\<lambda>h. \<lparr>previous = None,
        next_link = Some \<lparr>results = Some True, cursor = None\<rparr>\<rparr>) (Some ''h''))) = None \<and>
   ownProp (query (button_to (previous_button (renderTableHeader
      (\<lambda>h. \<lparr>previous = None, next_link = Some \<lparr>results = Some True, cursor = None\<rparr>\<rparr>)
      (\<lambda>v. None)
      \<lparr>pathname = ''/issues/1/events/'',
       query = Some [''query'' \<mapsto> Str ''is:unresolved'', ''cursor'' \<mapsto> Str ''0:20:0'']\<rparr>
      ''/issues/1/''
      \<lparr>pageLinks = Some ''h'', pageEventsCount = Num 20, totalEventsCount = Num 57, isPending = False\<rparr>))))
      ''cursor'' = Some Undefined \<and>
   ownProp (query (button_to (next_button (renderTableHeader
      (\<lambda>h. \<lparr>previous = None, next_link = Some \<lparr>results = Some True, cursor = None\<rparr>\<rparr>)
      (\<lambda>v. None)
      \<lparr>pathname = ''/issues/1/events/'',
       query = Some [''query'' \<mapsto> Str ''is:unresolved'', ''cursor'' \<mapsto> Str ''0:20:0'']\<rparr>
      ''/issues/1/''
      \<lparr>pageLinks = Some ''h'', pageEventsCount = Num 20, totalEventsCount = Num 57, isPending = False\<rparr>))))
      ''cursor'' = Some Undefined"
  using
    missing_cursor_key_undefined
      [where props = "\<lparr>pageLinks = Some ''h'', pageEventsCount = Num 20, totalEventsCount = Num 57, isPending = False\<rparr>"
         and plh = "\<lambda>h. \<lparr>previous = None, next_link = Some \<lparr>results = Some True, cursor = None\<rparr>\<rparr>"
         and pc = "\<lambda>v. None"
         and loc = "\<lparr>pathname = ''/issues/1/events/'',
                     query = Some [''query'' \<mapsto> Str ''is:unresolved'', ''cursor'' \<mapsto> Str ''0:20:0'']\<rparr>"
         and baseUrl = "''/issues/1/''"]
  by (simp add: optCursor_def)

subsection \<open>A page in the middle of the list\<close>

text \<open>
  Claim C6: the header has a previous entry with \<^verbatim>\<open>results="false"\<close> and a next
  entry with \<^verbatim>\<open>results="true"\<close> and cursor \<^verbatim>\<open>10:20:0\<close>, the page holds 20
  of 57 events, the cursor of the location has offset 10 and nothing is loading. Then the
  summary shows 10, 30 and 57, the previous button is disabled, the next button is
  enabled, and the target of the next button has \<^verbatim>\<open>cursor\<close> bound to
  \<^verbatim>\<open>10:20:0\<close> and every other query key as in the current location.
\<close>

theorem scenario_a:
  assumes entries:
      "plh (pageLinks props) =
         \<lparr>previous = Some \<lparr>results = Some False, cursor = None\<rparr>,
          next_link = Some \<lparr>results = Some True, cursor = Some ''10:20:0''\<rparr>\<rparr>"
    and current: "pc (jsGet (query loc) ''cursor'') = Some c" "offset c = Num 10"
    and counts: "pageEventsCount props = Num 20" "totalEventsCount props = Num 57"
    and idle: "\<not> isPending props"
  shows
    "header_range (renderTableHeader plh pc loc baseUrl props) =
       Some \<lparr>tct_start = Num 10, tct_end = Num 30, tct_count = Num 57\<rparr> \<and>
     button_disabled (previous_button (renderTableHeader plh pc loc baseUrl props)) \<and>
     \<not> button_disabled (next_button (renderTableHeader plh pc loc baseUrl props)) \<and>
     ownProp (query (button_to (next_button (renderTableHeader plh pc loc baseUrl props)))) ''cursor'' =
       Some (Str ''10:20:0'') \<and>
     (\<forall>k. k \<noteq> ''cursor'' \<longrightarrow>
        ownProp (query (button_to (next_button (renderTableHeader plh pc loc baseUrl props)))) k =
          ownProp (query loc) k)"
proof -
  let ?view = "renderTableHeader plh pc loc baseUrl props"
  have range: "header_range ?view = Some \<lparr>tct_start = Num 10, tct_end = Num 30, tct_count = Num 57\<rparr>"
    using current counts idle by (simp add: header_range_eq roundToDouble_exact)
  have prev: "button_disabled (previous_button ?view)"
    using entries by (simp add: previous_button_eq optResults_def)
  have nxt: "\<not> button_disabled (next_button ?view)"
    using entries idle by (simp add: next_button_eq optResults_def)
  have target: "button_to (next_button ?view) = withCursor loc (Some ''10:20:0'')"
    using entries by (simp add: next_button_eq optCursor_def)
  have token: "ownProp (query (button_to (next_button ?view))) ''cursor'' = Some (Str ''10:20:0'')"
    unfolding target by (simp add: withCursor_ownProp toQueryValue_def)
  have others: "\<forall>k. k \<noteq> ''cursor'' \<longrightarrow>
      ownProp (query (button_to (next_button ?view))) k = ownProp (query loc) k"
    unfolding target by (simp add: withCursor_ownProp)
  from range prev nxt token others show ?thesis
    by blast
qed

theorem scenario_a_witness:
  "header_range (renderTableHeader
      (\<lambda>h. \<lparr>previous = Some \<lparr>results = Some False, cursor = None\<rparr>,
             next_link = Some \<lparr>results = Some True, cursor = Some ''10:20:0''\<rparr>\<rparr>)
      (\<lambda>v. Some \<lparr>offset = Num 10\<rparr>)
      \<lparr>pathname = ''/issues/1/events/'',
       query = Some [''query'' \<mapsto> Str ''is:unresolved'', ''cursor'' \<mapsto> Str ''0:10:0'']\<rparr>
      ''/issues/1/''
      \<lparr>pageLinks = Some ''<u>; rel=\"previous\"; results=\"false\", <u>; rel=\"next\"; results=\"true\"; cursor=\"10:20:0\"'',
       pageEventsCount = Num 20, totalEventsCount = Num 57, isPending = False\<rparr>) =
     Some \<lparr>tct_start = Num 10, tct_end = Num 30, tct_count = Num 57\<rparr> \<and>
   ownProp (query (button_to (next_button (renderTableHeader
      (\<lambda>h. \<lparr>previous = Some \<lparr>results = Some False, cursor = None\<rparr>,
             next_link = Some \<lparr>results = Some True, cursor = Some ''10:20:0''\<rparr>\<rparr>)
      (\<lambda>v. Some \<lparr>offset = Num 10\<rparr>)
      \<lparr>pathname = ''/issues/1/events/'',
       query = Some [''query'' \<mapsto> Str ''is:unresolved'', ''cursor'' \<mapsto> Str ''0:10:0'']\<rparr>
      ''/issues/1/''
      \<lparr>pageLinks = Some ''<u>; rel=\"previous\"; results=\"false\", <u>; rel=\"next\"; results=\"true\"; cursor=\"10:20:0\"'',
       pageEventsCount = Num 20, totalEventsCount = Num 57, isPending = False\<rparr>)))) ''cursor'' =
     Some (Str ''10:20:0'') \<and>
   ownProp (query (button_to (next_button (renderTableHeader
      (\<lambda>h. \<lparr>previous = Some \<lparr>results = Some False, cursor = None\<rparr>,
             next_link = Some \<lparr>results = Some True, cursor = Some ''10:20:0''\<rparr>\<rparr>)
      (\<lambda>v. Some \<lparr>offset = Num 10\<rparr>)
      \<lparr>pathname = ''/issues/1/events/'',
       query = Some [''query'' \<mapsto> Str ''is:unresolved'', ''cursor'' \<mapsto> Str ''0:10:0'']\<rparr>
      ''/issues/1/''
      \<lparr>pageLinks = Some ''<u>; rel=\"previous\"; results=\"false\", <u>; rel=\"next\"; results=\"true\"; cursor=\"10:20:0\"'',
       pageEventsCount = Num 20, totalEventsCount = Num 57, isPending = False\<rparr>)))) ''query'' =
     Some (Str ''is:unresolved'')"
  using
    scenario_a
      [where props = "\<lparr>pageLinks = Some ''<u>; rel=\"previous\"; results=\"false\", <u>; rel=\"next\"; results=\"true\"; cursor=\"10:20:0\"'',
                       pageEventsCount = Num 20, totalEventsCount = Num 57, isPending = False\<rparr>"
         and plh = "\<lambda>h. \<lparr>previous = Some \<lparr>results = Some False, cursor = None\<rparr>,
                           next_link = Some \<lparr>results = Some True, cursor = Some ''10:20:0''\<rparr>\<rparr>"
         and pc = "\<lambda>v. Some \<lparr>offset = Num 10\<rparr>"
         and loc = "\<lparr>pathname = ''/issues/1/events/'',
                     query = Some [''query'' \<mapsto> Str ''is:unresolved'', ''cursor'' \<mapsto> Str ''0:10:0'']\<rparr>"
         and baseUrl = "''/issues/1/''" and c = "\<lparr>offset = Num 10\<rparr>"]
  by (simp add: ownProp_def)

subsection \<open>The targets as a function of links and location\<close>

text \<open>
  Claim C7: the target of a page button is determined by the parsed links and the
  current location. Two evaluations with the same links and the same location give equal
  targets, whatever the other inputs are; and computing the target again from the target
  gives the same location.
\<close>

theorem page_target_deterministic:
  "plh (pageLinks props) = plh' (pageLinks props') \<Longrightarrow>
   button_to (previous_button (renderTableHeader plh pc loc baseUrl props)) =
     button_to (previous_button (renderTableHeader plh' pc' loc baseUrl' props')) \<and>
   button_to (next_button (renderTableHeader plh pc loc baseUrl props)) =
     button_to (next_button (renderTableHeader plh' pc' loc baseUrl' props')) \<and>
   button_to (previous_button (renderTableHeader plh pc
       (button_to (previous_button (renderTableHeader plh pc loc baseUrl props))) baseUrl props)) =
     button_to (previous_button (renderTableHeader plh pc loc baseUrl props)) \<and>
   button_to (next_button (renderTableHeader plh pc
       (button_to (next_button (renderTableHeader plh pc loc baseUrl props))) baseUrl props)) =
     button_to (next_button (renderTableHeader plh pc loc baseUrl props))"
proof -
  assume same: "plh (pageLinks props) = plh' (pageLinks props')"
  let ?first = "renderTableHeader plh pc loc baseUrl props"
  let ?second = "renderTableHeader plh' pc' loc baseUrl' props'"
  have "button_to (previous_button ?first) = button_to (previous_button ?second)"
    and "button_to (next_button ?first) = button_to (next_button ?second)"
    using same by (simp_all add: previous_button_eq next_button_eq)
  moreover
  have "button_to (previous_button (renderTableHeader plh pc (button_to (previous_button ?first))
          baseUrl props)) = button_to (previous_button ?first)"
    and "button_to (next_button (renderTableHeader plh pc (button_to (next_button ?first))
          baseUrl props)) = button_to (next_button ?first)"
    by (simp_all add: previous_button_eq next_button_eq withCursor_idem)
  ultimately show ?thesis
    by simp
qed

theorem page_target_deterministic_witness:
  "button_to (next_button (renderTableHeader
      (\<lambda>h. \<lparr>previous = None, next_link = Some \<lparr>results = Some True, cursor = Some ''0:20:0''\<rparr>\<rparr>)
      (\<lambda>v. None)
      \<lparr>pathname = ''/issues/1/events/'', query = Some [''query'' \<mapsto> Str ''is:unresolved'']\<rparr>
      ''/issues/1/''
      \<lparr>pageLinks = Some ''h'', pageEventsCount = Num 20, totalEventsCount = Num 57, isPending = False\<rparr>)) =
   button_to (next_button (renderTableHeader
      (\<lambda>h. \<lparr>previous = None, next_link = Some \<lparr>results = Some True, cursor = Some ''0:20:0''\<rparr>\<rparr>)
      (\<lambda>v. Some \<lparr>offset = Num 5\<rparr>)
      \<lparr>pathname = ''/issues/1/events/'', query = Some [''query'' \<mapsto> Str ''is:unresolved'']\<rparr>
      ''/issues/2/''
      \<lparr>pageLinks = Some ''h'', pageEventsCount = Num 3, totalEventsCount = Num 9, isPending = True\<rparr>))"
  using
    page_target_deterministic
      [where props = "\<lparr>pageLinks = Some ''h'', pageEventsCount = Num 20, totalEventsCount = Num 57, isPending = False\<rparr>"
         and props' = "\<lparr>pageLinks = Some ''h'', pageEventsCount = Num 3, totalEventsCount = Num 9, isPending = True\<rparr>"
         and plh = "\<lambda>h. \<lparr>previous = None, next_link = Some \<lparr>results = Some True, cursor = Some ''0:20:0''\<rparr>\<rparr>"
         and plh' = "\<lambda>h. \<lparr>previous = None, next_link = Some \<lparr>results = Some True, cursor = Some ''0:20:0''\<rparr>\<rparr>"
         and pc = "\<lambda>v. None" and pc' = "\<lambda>v. Some \<lparr>offset = Num 5\<rparr>"
         and loc = "\<lparr>pathname = ''/issues/1/events/'', query = Some [''query'' \<mapsto> Str ''is:unresolved'']\<rparr>"
         and baseUrl = "''/issues/1/''" and baseUrl' = "''/issues/2/''"]
  by simp

subsection \<open>Headers that do not parse\<close>




subsection \<open>The Close button\<close>

text \<open>
  Claim C9: the target of the Close button has \<^verbatim>\<open>baseUrl\<close> as its path and the
  query of the current location, unchanged; in particular the \<^verbatim>\<open>cursor\<close> key is
  kept as it is.
\<close>

theorem close_target:
  "pathname (close_to (renderTableHeader plh pc loc baseUrl props)) = baseUrl \<and>
   query (close_to (renderTableHeader plh pc loc baseUrl props)) = query loc \<and>
   ownProp (query (close_to (renderTableHeader plh pc loc baseUrl props))) ''cursor'' =
     ownProp (query loc) ''cursor''"
  by (simp add: close_to_eq)

theorem close_target_witness:
  "pathname (close_to (renderTableHeader
      (\<lambda>h. \<lparr>previous = None, next_link = None\<rparr>) (\<lambda>v. None)
      \<lparr>pathname = ''/issues/1/events/'',
       query = Some [''query'' \<mapsto> Str ''is:unresolved'', ''cursor'' \<mapsto> Str ''0:20:0'']\<rparr>
      ''/issues/1/''
      \<lparr>pageLinks = None, pageEventsCount = Num 20, totalEventsCount = Num 57, isPending = False\<rparr>)) =
     ''/issues/1/'' \<and>
   ownProp (query (close_to (renderTableHeader
      (\<lambda>h. \<lparr>previous = None, next_link = None\<rparr>) (\<lambda>v. None)
      \<lparr>pathname = ''/issues/1/events/'',
       query = Some [''query'' \<mapsto> Str ''is:unresolved'', ''cursor'' \<mapsto> Str ''0:20:0'']\<rparr>
      ''/issues/1/''
      \<lparr>pageLinks = None, pageEventsCount = Num 20, totalEventsCount = Num 57, isPending = False\<rparr>)))
      ''cursor'' = Some (Str ''0:20:0'')"
  using
    close_target
      [where props = "\<lparr>pageLinks = None, pageEventsCount = Num 20, totalEventsCount = Num 57, isPending = False\<rparr>"
         and plh = "\<lambda>h. \<lparr>previous = None, next_link = None\<rparr>" and pc = "\<lambda>v. None"
         and loc = "\<lparr>pathname = ''/issues/1/events/'',
                     query = Some [''query'' \<mapsto> Str ''is:unresolved'', ''cursor'' \<mapsto> Str ''0:20:0'']\<rparr>"
         and baseUrl = "''/issues/1/''"]
  by (simp add: ownProp_def)

subsection \<open>The inputs of the derived state\<close>

text \<open>
  Claim C10: the summary, both disabled flags and both targets are determined by
  \<^verbatim>\<open>pageLinks\<close>, \<^verbatim>\<open>pageEventsCount\<close>, \<^verbatim>\<open>totalEventsCount\<close>,
  \<^verbatim>\<open>isPending\<close> and the current location. Two evaluations that agree on these
  give the same summary and the same page buttons, whatever else the argument of the
  callback carries and whatever \<^verbatim>\<open>baseUrl\<close> is.
\<close>

theorem derived_state_inputs:
  "pageLinks props = pageLinks props' \<Longrightarrow> pageEventsCount props = pageEventsCount props' \<Longrightarrow>
   totalEventsCount props = totalEventsCount props' \<Longrightarrow> isPending props = isPending props' \<Longrightarrow>
   header_range (renderTableHeader plh pc loc baseUrl props) =
     header_range (renderTableHeader plh pc loc baseUrl' props') \<and>
   previous_button (renderTableHeader plh pc loc baseUrl props) =
     previous_button (renderTableHeader plh pc loc baseUrl' props') \<and>
   next_button (renderTableHeader plh pc loc baseUrl props) =
     next_button (renderTableHeader plh pc loc baseUrl' props')"
  by (simp add: header_range_eq previous_button_eq next_button_eq)

theorem derived_state_inputs_witness:
  "header_range (renderTableHeader
      (\<lambda>h. \<lparr>previous = None, next_link = Some \<lparr>results = Some True, cursor = Some ''0:20:0''\<rparr>\<rparr>)
      (\<lambda>v. None)
      \<lparr>pathname = ''/issues/1/events/'', query = Some [''query'' \<mapsto> Str ''is:unresolved'']\<rparr>
      ''/issues/1/''
      \<lparr>pageLinks = Some ''h'', pageEventsCount = Num 20, totalEventsCount = Num 57, isPending = False,
       \<dots> = ''first render''\<rparr>) =
   header_range (renderTableHeader
      (\<lambda>h. \<lparr>previous = None, next_link = Some \<lparr>results = Some True, cursor = Some ''0:20:0''\<rparr>\<rparr>)
      (\<lambda>v. None)
      \<lparr>pathname = ''/issues/1/events/'', query = Some [''query'' \<mapsto> Str ''is:unresolved'']\<rparr>
      ''/organizations/acme/issues/1/''
      \<lparr>pageLinks = Some ''h'', pageEventsCount = Num 20, totalEventsCount = Num 57, isPending = False,
       \<dots> = ''second render''\<rparr>) \<and>
   next_button (renderTableHeader
      (\<lambda>h. \<lparr>previous = None, next_link = Some \<lparr>results = Some True, cursor = Some ''0:20:0''\<rparr>\<rparr>)
      (\<lambda>v. None)
      \<lparr>pathname = ''/issues/1/events/'', query = Some [''query'' \<mapsto> Str ''is:unresolved'']\<rparr>
      ''/issues/1/''
      \<lparr>pageLinks = Some ''h'', pageEventsCount = Num 20, totalEventsCount = Num 57, isPending = False,
       \<dots> = ''first render''\<rparr>) =
   next_button (renderTableHeader
      (\<lambda>h. \<lparr>previous = None, next_link = Some \<lparr>results = Some True, cursor = Some ''0:20:0''\<rparr>\<rparr>)
      (\<lambda>v. None)
      \<lparr>pathname = ''/issues/1/events/'', query = Some [''query'' \<mapsto> Str ''is:unresolved'']\<rparr>
      ''/organizations/acme/issues/1/''
      \<lparr>pageLinks = Some ''h'', pageEventsCount = Num 20, totalEventsCount = Num 57, isPending = False,
       \<dots> = ''second render''\<rparr>)"
  using
    derived_state_inputs
      [where props = "\<lparr>pageLinks = Some ''h'', pageEventsCount = Num 20, totalEventsCount = Num 57,
                       isPending = False, \<dots> = ''first render''\<rparr>"
         and props' = "\<lparr>pageLinks = Some ''h'', pageEventsCount = Num 20, totalEventsCount = Num 57,
                        isPending = False, \<dots> = ''second render''\<rparr>"
         and plh = "\<lambda>h. \<lparr>previous = None, next_link = Some \<lparr>results = Some True, cursor = Some ''0:20:0''\<rparr>\<rparr>"
         and pc = "\<lambda>v. None"
         and loc = "\<lparr>pathname = ''/issues/1/events/'', query = Some [''query'' \<mapsto> Str ''is:unresolved'']\<rparr>"
         and baseUrl = "''/issues/1/''" and baseUrl' = "''/organizations/acme/issues/1/''"]
  by simp

end
